theory Spec2Isabelle
  imports Main "HOL-Library.Extended_Nat"
begin

section \<open>Strings\<close>

text \<open>
  A JavaScript string is a sequence of UTF-16 code units. The page text, the labels and
  the job names are not restricted to ASCII (the placeholder test even names three
  non-ASCII code units), so a string is a list of code units, each a natural number.
  \<open>js\<close> writes an ASCII literal.
\<close>

type_synonym jstring = "nat list"

abbreviation js :: "string \<Rightarrow> jstring" where
  "js s \<equiv> map of_char s"

text \<open>
  The character classes the regular expressions of \<^verbatim>\<open>index.js\<close> use. \<open>isSpace\<close> is
  \<^verbatim>\<open>\s\<close> (ECMAScript WhiteSpace and LineTerminator, the set \<^verbatim>\<open>trim()\<close> removes as well),
  \<open>isDigit\<close> is \<^verbatim>\<open>\d\<close>, \<open>isLetter\<close> is \<^verbatim>\<open>[A-Za-z]\<close>.
\<close>

definition isSpace :: "nat \<Rightarrow> bool" where
  "isSpace c =
     (c = 9 \<or> c = 10 \<or> c = 11 \<or> c = 12 \<or> c = 13 \<or> c = 32 \<or> c = 160 \<or> c = 5760
      \<or> (8192 \<le> c \<and> c \<le> 8202) \<or> c = 8232 \<or> c = 8233 \<or> c = 8239 \<or> c = 8287
      \<or> c = 12288 \<or> c = 65279)"

definition isDigit :: "nat \<Rightarrow> bool" where
  "isDigit c = (48 \<le> c \<and> c \<le> 57)"

definition isLetter :: "nat \<Rightarrow> bool" where
  "isLetter c = ((65 \<le> c \<and> c \<le> 90) \<or> (97 \<le> c \<and> c \<le> 122))"

text \<open>
  Canonicalisation under the \<^verbatim>\<open>i\<close> flag (no \<^verbatim>\<open>u\<close> flag): a code unit is upper-cased,
  and a code unit from 128 on is never mapped into ASCII. Every literal of the one
  case-insensitive pattern of the program is ASCII, so only the ASCII part of the
  mapping decides a comparison with it.
\<close>

definition canon :: "nat \<Rightarrow> nat" where
  "canon c = (if 97 \<le> c \<and> c \<le> 122 then c - 32 else c)"

section \<open>Regular expressions\<close>

text \<open>
  The patterns of the program are sequences of three kinds of item: one character of a
  class, a greedy \<^verbatim>\<open>*\<close> over a class and a lazy \<^verbatim>\<open>*?\<close> over a class (\<^verbatim>\<open>x+\<close> is \<^verbatim>\<open>xx*\<close>, and
  \<^verbatim>\<open>(?:"|')\<close> is one character of a two-element class). The matcher backtracks in the
  order of the ECMAScript semantics: a greedy star tries the longest run first and gives
  characters back one at a time, a lazy star tries the empty run first. It returns the
  piece of input each item consumed, in order, and the input left after the match, so a
  capture group is the concatenation of the pieces of its items.
\<close>

datatype atom = One "nat \<Rightarrow> bool" | Star "nat \<Rightarrow> bool" | Lazy "nat \<Rightarrow> bool"

fun star_splits :: "(nat \<Rightarrow> bool) \<Rightarrow> jstring \<Rightarrow> (jstring \<times> jstring) list" where
  "star_splits p [] = [([], [])]"
| "star_splits p (c # cs) =
     ([], c # cs) # (if p c then map (\<lambda>(t, r). (c # t, r)) (star_splits p cs) else [])"

fun first_split ::
  "(jstring \<Rightarrow> (jstring list \<times> jstring) option) \<Rightarrow> (jstring \<times> jstring) list
     \<Rightarrow> (jstring list \<times> jstring) option" where
  "first_split k [] = None"
| "first_split k ((t, r) # alts) =
     (case k r of Some (ps, r') \<Rightarrow> Some (t # ps, r') | None \<Rightarrow> first_split k alts)"

fun rx_match :: "atom list \<Rightarrow> jstring \<Rightarrow> (jstring list \<times> jstring) option" where
  "rx_match [] s = Some ([], s)"
| "rx_match (One p # as) [] = None"
| "rx_match (One p # as) (c # cs) =
     (if p c then first_split (rx_match as) [([c], cs)] else None)"
| "rx_match (Star p # as) s = first_split (rx_match as) (rev (star_splits p s))"
| "rx_match (Lazy p # as) s = first_split (rx_match as) (star_splits p s)"

text \<open>
  \<^verbatim>\<open>exec\<close>/\<^verbatim>\<open>match\<close>: the leftmost position at which the pattern matches. The result is
  the text before the match, the pieces of the match and the text after it.
\<close>

fun rx_exec :: "atom list \<Rightarrow> jstring \<Rightarrow> (jstring \<times> jstring list \<times> jstring) option" where
  "rx_exec pat [] =
     (case rx_match pat [] of Some (ps, r) \<Rightarrow> Some ([], ps, r) | None \<Rightarrow> None)"
| "rx_exec pat (c # cs) =
     (case rx_match pat (c # cs) of
        Some (ps, r) \<Rightarrow> Some ([], ps, r)
      | None \<Rightarrow>
          (case rx_exec pat cs of
             Some (pre, ps, r) \<Rightarrow> Some (c # pre, ps, r)
           | None \<Rightarrow> None))"

subsection \<open>Every match is a segment of the input\<close>

lemma star_splits_append: "(t, r) \<in> set (star_splits p s) \<Longrightarrow> t @ r = s"
  by (induction s arbitrary: t r) (auto split: if_splits)

lemma star_splits_all: "(t, r) \<in> set (star_splits p s) \<Longrightarrow> \<forall>c\<in>set t. p c"
  by (induction s arbitrary: t r) (auto split: if_splits)

lemma first_split_SomeD:
  "first_split k alts = Some (qs, r') \<Longrightarrow>
     \<exists>t r ps. (t, r) \<in> set alts \<and> k r = Some (ps, r') \<and> qs = t # ps"
  by (induction alts) (fastforce split: option.splits)+

lemma rx_match_append: "rx_match as s = Some (ps, r) \<Longrightarrow> concat ps @ r = s"
proof (induction as arbitrary: s ps r)
  case Nil
  then show ?case by simp
next
  case (Cons a as)
  show ?case
  proof (cases a)
    case (One p)
    with Cons.prems obtain c cs where s: "s = c # cs" and pc: "p c"
      and m: "first_split (rx_match as) [([c], cs)] = Some (ps, r)"
      by (cases s) (auto split: if_splits)
    from m obtain qs where "rx_match as cs = Some (qs, r)" and "ps = [c] # qs"
      by (auto split: option.splits)
    with Cons.IH [of cs qs r] s show ?thesis by simp
  next
    case (Star p)
    with Cons.prems have "first_split (rx_match as) (rev (star_splits p s)) = Some (ps, r)"
      by simp
    from first_split_SomeD [OF this] obtain t r0 qs where
      "(t, r0) \<in> set (star_splits p s)" "rx_match as r0 = Some (qs, r)" "ps = t # qs"
      by auto
    with Cons.IH [of r0 qs r] star_splits_append [of t r0 p s] show ?thesis by simp
  next
    case (Lazy p)
    with Cons.prems have "first_split (rx_match as) (star_splits p s) = Some (ps, r)"
      by simp
    from first_split_SomeD [OF this] obtain t r0 qs where
      "(t, r0) \<in> set (star_splits p s)" "rx_match as r0 = Some (qs, r)" "ps = t # qs"
      by auto
    with Cons.IH [of r0 qs r] star_splits_append [of t r0 p s] show ?thesis by simp
  qed
qed

lemma rx_match_One_shorter:
  "rx_match (One p # as) s = Some (ps, r) \<Longrightarrow> length r < length s"
  using rx_match_append [of "One p # as" s ps r]
  by (cases s) (auto split: if_splits option.splits)

lemma rx_exec_append: "rx_exec pat s = Some (pre, ps, r) \<Longrightarrow> pre @ concat ps @ r = s"
  by (induction s arbitrary: pre) (auto split: option.splits dest: rx_match_append)

lemma rx_exec_match:
  "rx_exec pat s = Some (pre, ps, r) \<Longrightarrow> rx_match pat (concat ps @ r) = Some (ps, r)"
proof (induction s arbitrary: pre)
  case Nil
  then have m: "rx_match pat [] = Some (ps, r)"
    by (auto split: option.splits)
  show ?case unfolding rx_match_append [OF m] by (rule m)
next
  case (Cons c cs)
  show ?case
  proof (cases "rx_match pat (c # cs)")
    case None
    with Cons.prems obtain pre' where "rx_exec pat cs = Some (pre', ps, r)"
      by (auto split: option.splits)
    then show ?thesis by (rule Cons.IH)
  next
    case (Some res)
    with Cons.prems have m: "rx_match pat (c # cs) = Some (ps, r)"
      by (auto split: option.splits)
    show ?thesis unfolding rx_match_append [OF m] by (rule m)
  qed
qed

lemma rx_exec_One_shorter:
  "rx_exec (One p # as) s = Some (pre, ps, r) \<Longrightarrow> length r < length s"
  using rx_exec_append [of "One p # as" s pre ps r] rx_exec_match [of "One p # as" s pre ps r]
    rx_match_One_shorter [of p as "concat ps @ r" ps r]
  by auto

text \<open>Each piece of a match is made of characters of its item's class.\<close>

fun fits :: "atom \<Rightarrow> jstring \<Rightarrow> bool" where
  "fits (One p) q = (\<exists>c. q = [c] \<and> p c)"
| "fits (Star p) q = list_all p q"
| "fits (Lazy p) q = list_all p q"

lemma rx_match_fits: "rx_match as s = Some (ps, r) \<Longrightarrow> list_all2 fits as ps"
proof (induction as arbitrary: s ps r)
  case Nil
  then show ?case by simp
next
  case (Cons a as)
  show ?case
  proof (cases a)
    case (One p)
    with Cons.prems obtain c cs where s: "s = c # cs" and pc: "p c"
      and m: "first_split (rx_match as) [([c], cs)] = Some (ps, r)"
      by (cases s) (auto split: if_splits)
    from m obtain qs where "rx_match as cs = Some (qs, r)" and "ps = [c] # qs"
      by (auto split: option.splits)
    with Cons.IH [of cs qs r] One pc show ?thesis by simp
  next
    case (Star p)
    with Cons.prems have "first_split (rx_match as) (rev (star_splits p s)) = Some (ps, r)"
      by simp
    from first_split_SomeD [OF this] obtain t r0 qs where
      "(t, r0) \<in> set (star_splits p s)" "rx_match as r0 = Some (qs, r)" "ps = t # qs"
      by auto
    with Cons.IH [of r0 qs r] star_splits_all [of t r0 p s] Star show ?thesis
      by (simp add: list_all_iff)
  next
    case (Lazy p)
    with Cons.prems have "first_split (rx_match as) (star_splits p s) = Some (ps, r)"
      by simp
    from first_split_SomeD [OF this] obtain t r0 qs where
      "(t, r0) \<in> set (star_splits p s)" "rx_match as r0 = Some (qs, r)" "ps = t # qs"
      by auto
    with Cons.IH [of r0 qs r] star_splits_all [of t r0 p s] Lazy show ?thesis
      by (simp add: list_all_iff)
  qed
qed

lemma rx_exec_length:
  "rx_exec pat s = Some (pre, ps, r) \<Longrightarrow> length ps = length pat"
proof -
  assume "rx_exec pat s = Some (pre, ps, r)"
  then have "list_all2 fits pat ps"
    by (rule rx_match_fits [OF rx_exec_match])
  then show ?thesis
    by (simp add: list_all2_lengthD)
qed

subsection \<open>Global replacement\<close>

text \<open>
  \<^verbatim>\<open>s.replace(/pat/g, rep)\<close> for a replacement text without \<^verbatim>\<open>$\<close>: every match, scanning
  from the left, is replaced; after an empty match the scan moves one code unit on and
  keeps that code unit.
\<close>

fun rx_replace :: "atom list \<Rightarrow> jstring \<Rightarrow> jstring \<Rightarrow> jstring" where
  "rx_replace pat rep [] = (case rx_match pat [] of Some _ \<Rightarrow> rep | None \<Rightarrow> [])"
| "rx_replace pat rep (c # cs) =
     (case rx_match pat (c # cs) of
        Some (ps, r) \<Rightarrow>
          (if length r < length (c # cs) then rep @ rx_replace pat rep r
           else rep @ c # rx_replace pat rep cs)
      | None \<Rightarrow> c # rx_replace pat rep cs)"

section \<open>Structural helpers\<close>

text \<open>
  \<^verbatim>\<open>function norm(s) { return (s || "").replace(/\s+/g, " ").trim(); }\<close>
  The argument is \<open>None\<close> for \<^verbatim>\<open>undefined\<close> or \<^verbatim>\<open>null\<close>.
\<close>

definition trim :: "jstring \<Rightarrow> jstring" where
  "trim s = rev (dropWhile isSpace (rev (dropWhile isSpace s)))"

definition spacesRegex :: "atom list" where
  "spacesRegex = [One isSpace, Star isSpace]"

definition norm :: "jstring option \<Rightarrow> jstring" where
  "norm s = trim (rx_replace spacesRegex (js '' '') (case s of None \<Rightarrow> [] | Some t \<Rightarrow> t))"

text \<open>
  \<^verbatim>\<open>t.includes(sub)\<close>: \<open>sub\<close> occurs in \<open>t\<close> as a contiguous segment.
\<close>

fun startsWith :: "jstring \<Rightarrow> jstring \<Rightarrow> bool" where
  "startsWith s [] = True"
| "startsWith [] (x # xs) = False"
| "startsWith (c # cs) (x # xs) = (c = x \<and> startsWith cs xs)"

fun includes_str :: "jstring \<Rightarrow> jstring \<Rightarrow> bool" where
  "includes_str [] sub = (sub = [])"
| "includes_str (c # cs) sub = (startsWith (c # cs) sub \<or> includes_str cs sub)"

text \<open>
  \<^verbatim>\<open>mapCategory(t)\<close> returns the pair of keys \<^verbatim>\<open>[group, key]\<close> of the result object, or
  \<^verbatim>\<open>null\<close> (\<open>None\<close>).
\<close>

definition mapCategory :: "jstring \<Rightarrow> (string \<times> string) option" where
  "mapCategory t =
     (if includes_str t (js ''tank'') then Some (''DoW/DoM'', ''Tank'')
      else if includes_str t (js ''healer'') then Some (''DoW/DoM'', ''Healer'')
      else if includes_str t (js ''melee dps'') then Some (''DoW/DoM'', ''Melee DPS'')
      else if includes_str t (js ''physical ranged dps'')
        then Some (''DoW/DoM'', ''Physical Ranged DPS'')
      else if includes_str t (js ''magical ranged dps'')
        then Some (''DoW/DoM'', ''Magical Ranged DPS'')
      else if includes_str t (js ''limited'') then Some (''DoW/DoM'', ''Limited Jobs'')
      else if includes_str t (js ''disciples of the hand'') \<or> t = js ''hand''
        then Some (''DoH/DoL'', ''Hand (DoH)'')
      else if includes_str t (js ''disciples of the land'') \<or> t = js ''land''
        then Some (''DoH/DoL'', ''Land (DoL)'')
      else None)"

section \<open>View-source reconstruction\<close>

text \<open>
  \<^verbatim>\<open>/<td[^>]*class=(?:"|')([^"']*line-content[^"']*)(?:"|')[^>]*>([\s\S]*?)<\/td>/gi\<close>
  The literals are compared after canonicalisation; the classes \<^verbatim>\<open>[^>]\<close> and \<^verbatim>\<open>[^"']\<close>
  hold no letter, so canonicalisation does not change them. The items are numbered from
  0: the three of \<^verbatim>\<open><td\<close>, the star 3, \<^verbatim>\<open>class=\<close> 4 to 9, the quote 10, the star 11,
  \<^verbatim>\<open>line-content\<close> 12 to 23, the star 24, the quote 25, the star 26, \<^verbatim>\<open>>\<close> 27, the lazy
  star of group 2 is item 28, and \<^verbatim>\<open></td>\<close> 29 to 33.
\<close>

definition lit_ci :: "string \<Rightarrow> atom list" where
  "lit_ci s = map (\<lambda>ch. One (\<lambda>c. canon c = canon (of_char ch))) s"

definition isQuote :: "nat \<Rightarrow> bool" where
  "isQuote c = (c = 34 \<or> c = 39)"

definition cellRegex :: "atom list" where
  "cellRegex =
     lit_ci ''<td'' @ [Star (\<lambda>c. c \<noteq> 62)] @ lit_ci ''class=''
     @ [One isQuote, Star (\<lambda>c. \<not> isQuote c)] @ lit_ci ''line-content''
     @ [Star (\<lambda>c. \<not> isQuote c), One isQuote, Star (\<lambda>c. c \<noteq> 62), One (\<lambda>c. c = 62),
        Lazy (\<lambda>c. True)]
     @ lit_ci ''</td>''"

text \<open>\<^verbatim>\<open>/<[^>]+>/g\<close>\<close>

definition tagRegex :: "atom list" where
  "tagRegex = [One (\<lambda>c. c = 60), One (\<lambda>c. c \<noteq> 62), Star (\<lambda>c. c \<noteq> 62), One (\<lambda>c. c = 62)]"

lemma cellRegex_shorter:
  "rx_exec cellRegex html = Some (pre, ps, rest) \<Longrightarrow> length rest < length html"
  by (rule rx_exec_One_shorter [where pre = pre and ps = ps])
    (simp add: cellRegex_def lit_ci_def)

text \<open>
  The \<^verbatim>\<open>while ((m = cellRegex.exec(html)) !== null)\<close> loop. The pattern object is new in
  every call of the function, so the scan starts at index 0; \<^verbatim>\<open>lastIndex\<close> is the start
  of the text passed on. \<open>cells_loop\<close> is the array \<^verbatim>\<open>cells\<close> at the end of the loop;
  \<open>decode\<close> is \<^verbatim>\<open>he.decode\<close>, a function of the library \<^verbatim>\<open>he\<close>.
\<close>

function cells_loop :: "(jstring \<Rightarrow> jstring) \<Rightarrow> jstring \<Rightarrow> jstring list" where
  "cells_loop decode html =
     (case rx_exec cellRegex html of
        None \<Rightarrow> []
      | Some (pre, ps, rest) \<Rightarrow>
          (let inner = ps ! 28;
               noTags = rx_replace tagRegex [] inner
           in decode noTags # cells_loop decode rest))"
  by pat_completeness auto
termination
  by (relation "measure (\<lambda>(decode, html). length html)") (auto dest: cellRegex_shorter)

declare cells_loop.simps [simp del]

text \<open>\<^verbatim>\<open>cells.join("\n")\<close>\<close>

fun join :: "jstring \<Rightarrow> jstring list \<Rightarrow> jstring" where
  "join sep [] = []"
| "join sep [x] = x"
| "join sep (x # y # ys) = x @ sep @ join sep (y # ys)"

definition reconstructFromViewSource :: "(jstring \<Rightarrow> jstring) \<Rightarrow> jstring \<Rightarrow> jstring" where
  "reconstructFromViewSource decode html =
     (let cells = cells_loop decode html
      in if length cells = 0 then html else join [10] cells)"

section \<open>The job-entry parser\<close>

text \<open>
  What \<^verbatim>\<open>parseLi\<close> reads of a list item through cheerio: the \<^verbatim>\<open>src\<close> attribute of each
  \<^verbatim>\<open>img\<close> below it, in document order (\<open>None\<close> where the attribute is missing), and its
  \<^verbatim>\<open>div\<close> children in order, each with its text and the three attributes the tooltip is
  taken from.
\<close>

record div_el =
  div_text :: jstring
  data_tooltip :: "jstring option"
  title :: "jstring option"
  aria_label :: "jstring option"

record li_el =
  li_imgs :: "jstring option list"
  li_divs :: "div_el list"

record parsed =
  icon :: "jstring option"
  level :: enat
  name :: jstring
  tooltip :: jstring
  exp :: enat
  maxv :: enat

text \<open>
  \<^verbatim>\<open>x.find("img").first().attr("src")\<close>, and the truth value of a value that is a string
  or \<^verbatim>\<open>undefined\<close>.
\<close>

definition first_src :: "jstring option list \<Rightarrow> jstring option" where
  "first_src imgs = (case imgs of [] \<Rightarrow> None | a # _ \<Rightarrow> a)"

definition truthy :: "jstring option \<Rightarrow> bool" where
  "truthy v = (case v of None \<Rightarrow> False | Some t \<Rightarrow> t \<noteq> [])"

text \<open>
  A number of the program is a non-negative integer or \<^verbatim>\<open>Infinity\<close> (\<open>\<infinity>\<close>): the fields
  \<^verbatim>\<open>level\<close>, \<^verbatim>\<open>exp\<close> and \<^verbatim>\<open>max\<close> start at 0 and are only assigned results of
  \<^verbatim>\<open>parseInt\<close> on digits.

  \<open>number_value n\<close> is the Number value of the integer \<open>n\<close>: \<open>n\<close> itself below \<open>2 ^ 53\<close>,
  and from there on the nearest double, a multiple of \<open>2 ^ e\<close> with a factor of 53 bits,
  a tie going to the even factor; \<^verbatim>\<open>Infinity\<close> when that is \<open>2 ^ 1024\<close> or more.
\<close>

fun bit_length :: "nat \<Rightarrow> nat" where
  "bit_length n = (if n = 0 then 0 else Suc (bit_length (n div 2)))"

declare bit_length.simps [simp del]

definition number_value :: "nat \<Rightarrow> enat" where
  "number_value n =
     (if n < 2 ^ 53 then enat n
      else
        (let e = bit_length n - 53;
             q = n div 2 ^ e;
             r = n mod 2 ^ e;
             q' = (if 2 ^ e < 2 * r \<or> (2 * r = 2 ^ e \<and> odd q) then q + 1 else q)
         in if 2 ^ 1024 \<le> q' * 2 ^ e then \<infinity> else enat (q' * 2 ^ e)))"

lemma number_value_small: "n < 2 ^ 53 \<Longrightarrow> number_value n = enat n"
  by (simp add: number_value_def)

text \<open>
  \<^verbatim>\<open>parseInt(t, 10)\<close> on a text that starts with a digit: the Number value of the integer
  its leading digits denote, every digit taken into account (the language lets an
  implementation read the digits after the twentieth as 0). Both calls of the program
  pass such a text (see \<open>levelTest\<close> and \<open>ratioRegex\<close>), so the result is never
  \<^verbatim>\<open>NaN\<close>.
\<close>

fun digits_value :: "nat \<Rightarrow> jstring \<Rightarrow> nat" where
  "digits_value acc [] = acc"
| "digits_value acc (c # cs) =
     (if isDigit c then digits_value (10 * acc + (c - 48)) cs else acc)"

definition parseInt10 :: "jstring \<Rightarrow> enat" where
  "parseInt10 t = number_value (digits_value 0 t)"

lemma bit_length_numeral:
  "bit_length (numeral (Num.Bit0 k)) = Suc (bit_length (numeral k))"
  "bit_length (numeral (Num.Bit1 k)) = Suc (bit_length (numeral k))"
  "bit_length (Suc 0) = Suc 0"
  by (simp_all add: bit_length.simps [of "numeral (Num.Bit0 k)"]
      bit_length.simps [of "numeral (Num.Bit1 k)"] bit_length.simps [of "Suc 0"]
      bit_length.simps [of 0])

text \<open>
  Above \<open>2 ^ 53\<close> the result is rounded as the program's numbers are: \<open>2 ^ 53 + 1\<close> is
  read as \<open>2 ^ 53\<close>, \<open>2 ^ 53 + 3\<close> as \<open>2 ^ 53 + 4\<close>.
\<close>

lemma parseInt10_rounds:
  "parseInt10 (js ''9007199254740993'') = 9007199254740992"
  "parseInt10 (js ''9007199254740995'') = 9007199254740996"
  "number_value (2 ^ 1024) = \<infinity>"
  by (simp_all add: parseInt10_def isDigit_def number_value_def bit_length_numeral Let_def
      numeral_eq_enat)

text \<open>
  \<^verbatim>\<open>const isDash = (s) => s === "-" || s === "..."\<close>, the second literal being the three
  code units U+00E2, U+20AC, U+201C.
\<close>

definition isDash :: "jstring \<Rightarrow> bool" where
  "isDash s = (s = js ''-'' \<or> s = [226, 8364, 8220])"

text \<open>\<^verbatim>\<open>/^\d{1,3}$/.test(raw)\<close> and \<^verbatim>\<open>/[A-Za-z]/.test(raw)\<close>\<close>

definition levelTest :: "jstring \<Rightarrow> bool" where
  "levelTest raw = (1 \<le> length raw \<and> length raw \<le> 3 \<and> list_all isDigit raw)"

definition letterTest :: "jstring \<Rightarrow> bool" where
  "letterTest raw = list_ex isLetter raw"

text \<open>
  \<^verbatim>\<open>/(\d[\d,]*)\s*\/\s*(\d[\d,]*)/\<close>: group 1 is items 0 and 1, group 2 is items 5 and 6.
  \<^verbatim>\<open>/,/g\<close> is \<open>commaRegex\<close>.
\<close>

definition ratioRegex :: "atom list" where
  "ratioRegex =
     [One isDigit, Star (\<lambda>c. isDigit c \<or> c = 44), Star isSpace, One (\<lambda>c. c = 47),
      Star isSpace, One isDigit, Star (\<lambda>c. isDigit c \<or> c = 44)]"

definition commaRegex :: "atom list" where
  "commaRegex = [One (\<lambda>c. c = 44)]"

text \<open>
  The body of \<^verbatim>\<open>$li.children("div").each(...)\<close> on the variables \<^verbatim>\<open>level\<close>, \<^verbatim>\<open>name\<close>,
  \<^verbatim>\<open>tooltip\<close>, \<^verbatim>\<open>exp\<close>, \<^verbatim>\<open>max\<close>, kept in the record that is returned at the end.
  \<^verbatim>\<open>!level\<close> holds when \<^verbatim>\<open>level\<close> is 0, \<^verbatim>\<open>!name\<close> when \<^verbatim>\<open>name\<close> is empty.
\<close>

definition parse_div :: "parsed \<Rightarrow> div_el \<Rightarrow> parsed" where
  "parse_div st d =
     (let raw = norm (Some (div_text d)) in
      if level st = 0 \<and> levelTest raw then st\<lparr>level := parseInt10 raw\<rparr>
      else
        (case rx_exec ratioRegex raw of
           Some (pre, m, rest) \<Rightarrow>
             st\<lparr>exp := parseInt10 (rx_replace commaRegex [] (m ! 0 @ m ! 1)),
                maxv := parseInt10 (rx_replace commaRegex [] (m ! 5 @ m ! 6))\<rparr>
         | None \<Rightarrow>
             if name st = [] \<and> raw \<noteq> [] \<and> \<not> isDash raw \<and> letterTest raw
             then st\<lparr>name := raw,
                     tooltip :=
                       (if truthy (data_tooltip d) then the (data_tooltip d)
                        else if truthy (title d) then the (title d)
                        else if truthy (aria_label d) then the (aria_label d)
                        else raw)\<rparr>
             else st))"

definition parseLi :: "li_el \<Rightarrow> parsed" where
  "parseLi li =
     foldl parse_div
       \<lparr>icon = (if truthy (first_src (li_imgs li)) then first_src (li_imgs li) else None),
        level = 0, name = [], tooltip = [], exp = 0, maxv = 0\<rparr>
       (li_divs li)"

section \<open>The request handler\<close>

text \<open>
  The result object. \<^verbatim>\<open>out[group][key]\<close> is a slot; the groups and the keys of a group
  are association lists in the order of the object literal.
\<close>

record job =
  job_icon :: "jstring option"
  job_level :: enat
  job_name :: jstring
  job_name_tooltip :: jstring
  job_exp :: enat
  job_exp_max :: enat

record slot =
  slot_icon :: "jstring option"
  jobs :: "job list"

record out =
  details_name :: jstring
  details_world :: jstring
  groups :: "(string \<times> (string \<times> slot) list) list"

definition empty_slot :: slot where
  "empty_slot = \<lparr>slot_icon = None, jobs = []\<rparr>"

definition initial_groups :: "(string \<times> (string \<times> slot) list) list" where
  "initial_groups =
     [(''DoW/DoM'',
        [(''Tank'', empty_slot), (''Healer'', empty_slot), (''Melee DPS'', empty_slot),
         (''Physical Ranged DPS'', empty_slot), (''Magical Ranged DPS'', empty_slot),
         (''Limited Jobs'', empty_slot)]),
      (''DoH/DoL'', [(''Hand (DoH)'', empty_slot), (''Land (DoL)'', empty_slot)])]"

definition get_slot :: "(string \<times> (string \<times> slot) list) list \<Rightarrow> string \<Rightarrow> string \<Rightarrow> slot option" where
  "get_slot gs g k = (case map_of gs g of None \<Rightarrow> None | Some cats \<Rightarrow> map_of cats k)"

definition update_slot ::
  "string \<Rightarrow> string \<Rightarrow> (slot \<Rightarrow> slot) \<Rightarrow> (string \<times> (string \<times> slot) list) list
     \<Rightarrow> (string \<times> (string \<times> slot) list) list" where
  "update_slot g k f gs =
     map (\<lambda>(g', cats).
            (g', if g' = g then map (\<lambda>(k', sl). (k', if k' = k then f sl else sl)) cats
                 else cats)) gs"

text \<open>
  The body of \<^verbatim>\<open>ul.find("> li").each(...)\<close>: an item without a name is skipped, any other
  is pushed on the job list of the slot.
\<close>

definition add_li :: "job list \<Rightarrow> li_el \<Rightarrow> job list" where
  "add_li js_list li =
     (let p = parseLi li in
      if name p = [] then js_list
      else js_list @
        [\<lparr>job_icon = (if truthy (icon p) then icon p else None),
          job_level = level p,
          job_name = name p,
          job_name_tooltip = (if tooltip p \<noteq> [] then tooltip p else name p),
          job_exp = exp p,
          job_exp_max = maxv p\<rparr>])"

text \<open>
  What the handler reads of a heading: its text, the \<^verbatim>\<open>src\<close> attributes of its images
  and the \<^verbatim>\<open>ul\<close> siblings after it (\<^verbatim>\<open>nextAll("ul")\<close>), each with its \<^verbatim>\<open>li\<close> children. Of
  the document it reads the texts of the elements of the two identity classes and the
  \<^verbatim>\<open>h4\<close> elements in document order.
\<close>

record h4_el =
  h4_text :: jstring
  h4_imgs :: "jstring option list"
  h4_next_uls :: "li_el list list"

record document =
  chara_name :: "jstring list"
  chara_world :: "jstring list"
  h4s :: "h4_el list"

definition first_text :: "jstring list \<Rightarrow> jstring" where
  "first_text ts = (case ts of [] \<Rightarrow> [] | t # _ \<Rightarrow> t)"

text \<open>
  The body of \<^verbatim>\<open>h4s.each(...)\<close> on the groups of \<^verbatim>\<open>out\<close>. \<open>lower\<close> is
  \<^verbatim>\<open>String.prototype.toLowerCase\<close>, whose Unicode tables are not part of the program.
\<close>

definition h4_step ::
  "(jstring \<Rightarrow> jstring) \<Rightarrow> (string \<times> (string \<times> slot) list) list \<Rightarrow> h4_el
     \<Rightarrow> (string \<times> (string \<times> slot) list) list" where
  "h4_step lower gs h4 =
     (let label = lower (norm (Some (h4_text h4))) in
      case mapCategory label of
        None \<Rightarrow> gs
      | Some (grp, key) \<Rightarrow>
          (let catImg = first_src (h4_imgs h4);
               gs1 = (if truthy catImg \<and> Option.bind (get_slot gs grp key) slot_icon = None
                      then update_slot grp key (\<lambda>sl. sl\<lparr>slot_icon := catImg\<rparr>) gs
                      else gs)
           in case h4_next_uls h4 of
                [] \<Rightarrow> gs1
              | ul # _ \<Rightarrow>
                  update_slot grp key (\<lambda>sl. sl\<lparr>jobs := foldl add_li (jobs sl) ul\<rparr>) gs1))"

text \<open>
  The collaborators of the handler: \<^verbatim>\<open>axios.get\<close> (the text \<^verbatim>\<open>String(resp.data)\<close>, or the
  error thrown, with \<^verbatim>\<open>err.response?.status\<close> and \<^verbatim>\<open>err.code\<close>), \<^verbatim>\<open>cheerio.load\<close>,
  \<^verbatim>\<open>he.decode\<close>, \<^verbatim>\<open>toLowerCase\<close> and \<^verbatim>\<open>encodeURIComponent\<close> (\<open>None\<close> when it throws
  \<^verbatim>\<open>URIError\<close>).
\<close>

record fetch_error =
  err_status :: "nat option"
  err_code :: "jstring option"

record env =
  axios_get :: "jstring \<Rightarrow> fetch_error + jstring"
  cheerio_load :: "jstring \<Rightarrow> document"
  he_decode :: "jstring \<Rightarrow> jstring"
  toLowerCase :: "jstring \<Rightarrow> jstring"
  encodeURIComponent :: "jstring \<Rightarrow> jstring option"

text \<open>
  The messages: \<^verbatim>\<open>"Missing character ID."\<close>, \<^verbatim>\<open>`Upstream returned HTTP ${status}`\<close>,
  \<^verbatim>\<open>"Request timed out"\<close>, \<^verbatim>\<open>"Fetch/parse failed"\<close>. A response is the status code, the
  \<^verbatim>\<open>Cache-Control\<close> header if set, and the JSON body: an error with its message and, in
  the 502 case, the URL, or the result object.
\<close>

datatype error_msg =
  Missing_character_ID | Upstream_returned_HTTP nat | Request_timed_out | Fetch_parse_failed

datatype body = Error_body error_msg "jstring option" | Result_body out

record response =
  status :: nat
  cache_control :: "string option"
  body :: body

text \<open>
  The handler of \<^verbatim>\<open>/character/:character\<close>. \<open>param\<close> is \<^verbatim>\<open>req.params.character\<close> (\<open>None\<close>
  when undefined). The result is the response sent (\<open>None\<close> when the handler throws
  before it sends one: the URL is built outside the \<^verbatim>\<open>try\<close>) and the list of the URLs
  requested from \<^verbatim>\<open>axios.get\<close>. An error of the request is caught and answered
  with 502; the steps after the request are total functions, and a successful run sets
  \<^verbatim>\<open>Cache-Control: no-store\<close>.
\<close>

definition handler :: "env \<Rightarrow> jstring option \<Rightarrow> response option \<times> jstring list" where
  "handler e param =
     (let ident = trim (case param of None \<Rightarrow> [] | Some t \<Rightarrow> t) in
      if ident = [] then
        (Some \<lparr>status = 400, cache_control = None,
               body = Error_body Missing_character_ID None\<rparr>, [])
      else
        (case encodeURIComponent e ident of
           None \<Rightarrow> (None, [])
         | Some enc \<Rightarrow>
             (let url = js ''https://na.finalfantasyxiv.com/lodestone/character/'' @ enc
                          @ js ''/class_job/''
              in case axios_get e url of
                   Inl err \<Rightarrow>
                     (Some \<lparr>status = 502, cache_control = None,
                            body = Error_body
                              (case err_status err of
                                 Some st \<Rightarrow>
                                   if st \<noteq> 0 then Upstream_returned_HTTP st
                                   else if err_code err = Some (js ''ECONNABORTED'')
                                     then Request_timed_out else Fetch_parse_failed
                               | None \<Rightarrow>
                                   if err_code err = Some (js ''ECONNABORTED'')
                                     then Request_timed_out else Fetch_parse_failed)
                              (Some url)\<rparr>, [url])
                 | Inr pretty \<Rightarrow>
                     (let rawHtml = reconstructFromViewSource (he_decode e) pretty;
                          doc = cheerio_load e rawHtml
                      in (Some \<lparr>status = 200, cache_control = Some ''no-store'',
                                body = Result_body
                                  \<lparr>details_name = norm (Some (first_text (chara_name doc))),
                                   details_world = norm (Some (first_text (chara_world doc))),
                                   groups = foldl (h4_step (toLowerCase e)) initial_groups
                                              (h4s doc)\<rparr>\<rparr>,
                          [url])))))"

section \<open>Notions the properties are stated with\<close>

text \<open>The normalized texts of the sub-blocks of a fragment, in order.\<close>

definition sub_block_texts :: "li_el \<Rightarrow> jstring list" where
  "sub_block_texts li = map (\<lambda>d. norm (Some (div_text d))) (li_divs li)"

text \<open>
  The pair the experience rule reads from a text, \<open>None\<close> when the text does not hold the
  ratio pattern; the pair of the first and of the last text of a list that holds it,
  \<open>(0, 0)\<close> when none does.
\<close>

definition ratio_pair :: "jstring \<Rightarrow> (enat \<times> enat) option" where
  "ratio_pair raw =
     (case rx_exec ratioRegex raw of
        None \<Rightarrow> None
      | Some (pre, m, rest) \<Rightarrow>
          Some (parseInt10 (rx_replace commaRegex [] (m ! 0 @ m ! 1)),
                parseInt10 (rx_replace commaRegex [] (m ! 5 @ m ! 6))))"

definition first_ratio_pair :: "jstring list \<Rightarrow> enat \<times> enat" where
  "first_ratio_pair ts = (case List.map_filter ratio_pair ts of [] \<Rightarrow> (0, 0) | pr # _ \<Rightarrow> pr)"

definition last_ratio_pair :: "jstring list \<Rightarrow> enat \<times> enat" where
  "last_ratio_pair ts =
     (case rev (List.map_filter ratio_pair ts) of [] \<Rightarrow> (0, 0) | pr # _ \<Rightarrow> pr)"

text \<open>
  A numeric text: not empty, and made of decimal digits, commas, slashes and spaces
  only, as the level and the experience of a job are displayed.
\<close>

definition numericText :: "jstring \<Rightarrow> bool" where
  "numericText t = (t \<noteq> [] \<and> list_all (\<lambda>c. isDigit c \<or> c = 44 \<or> c = 47 \<or> c = 32) t)"

text \<open>
  The line-content cells of a text in scan order: the second group of each successive
  match of \<open>cellRegex\<close>, every search starting where the match before it ended.
\<close>

function line_cells :: "jstring \<Rightarrow> jstring list" where
  "line_cells html =
     (case rx_exec cellRegex html of
        None \<Rightarrow> []
      | Some (pre, ps, rest) \<Rightarrow> ps ! 28 # line_cells rest)"
  by pat_completeness auto
termination
  by (relation "measure length") (auto dest: cellRegex_shorter)

declare line_cells.simps [simp del]

text \<open>
  The words of a text, its maximal runs of characters that are not whitespace, and what
  it means for a text to hold another: the other text is a segment of it.
\<close>

function ws_words :: "jstring \<Rightarrow> jstring list" where
  "ws_words [] = []"
| "ws_words (c # cs) =
     (if isSpace c then ws_words cs
      else (c # takeWhile (\<lambda>x. \<not> isSpace x) cs) # ws_words (dropWhile (\<lambda>x. \<not> isSpace x) cs))"
  by pat_completeness auto
termination
  by (relation "measure length") (auto simp: less_Suc_eq_le length_dropWhile_le)

definition holds :: "jstring \<Rightarrow> jstring \<Rightarrow> bool" where
  "holds t kw = (\<exists>pre post. t = pre @ kw @ post)"

text \<open>
  The table of section 4.4 of the specification: the tests in their order of priority,
  each with its slot. The first test that a label passes decides.
\<close>

definition category_rules :: "((jstring \<Rightarrow> bool) \<times> string \<times> string) list" where
  "category_rules =
     [(\<lambda>t. holds t (js ''tank''), ''DoW/DoM'', ''Tank''),
      (\<lambda>t. holds t (js ''healer''), ''DoW/DoM'', ''Healer''),
      (\<lambda>t. holds t (js ''melee dps''), ''DoW/DoM'', ''Melee DPS''),
      (\<lambda>t. holds t (js ''physical ranged dps''), ''DoW/DoM'', ''Physical Ranged DPS''),
      (\<lambda>t. holds t (js ''magical ranged dps''), ''DoW/DoM'', ''Magical Ranged DPS''),
      (\<lambda>t. holds t (js ''limited''), ''DoW/DoM'', ''Limited Jobs''),
      (\<lambda>t. holds t (js ''disciples of the hand'') \<or> t = js ''hand'', ''DoH/DoL'', ''Hand (DoH)''),
      (\<lambda>t. holds t (js ''disciples of the land'') \<or> t = js ''land'', ''DoH/DoL'', ''Land (DoL)'')]"

definition first_rule :: "jstring \<Rightarrow> (string \<times> string) option" where
  "first_rule t = map_option snd (find (\<lambda>rule. fst rule t) category_rules)"

section \<open>Example inputs\<close>

text \<open>A \<^verbatim>\<open>div\<close> without attributes, and a list item without images made of such.\<close>

definition text_div :: "jstring \<Rightarrow> div_el" where
  "text_div t = \<lparr>div_text = t, data_tooltip = None, title = None, aria_label = None\<rparr>"

definition text_li :: "jstring list \<Rightarrow> li_el" where
  "text_li ts = \<lparr>li_imgs = [], li_divs = map text_div ts\<rparr>"

text \<open>
  Collaborators for an example run of the handler: the upstream answers 404, and the
  identifier needs no escaping.
\<close>

definition stub_env :: env where
  "stub_env =
     \<lparr>axios_get = (\<lambda>url. Inl \<lparr>err_status = Some 404, err_code = None\<rparr>),
      cheerio_load = (\<lambda>html. \<lparr>chara_name = [], chara_world = [], h4s = []\<rparr>),
      he_decode = (\<lambda>t. t),
      toLowerCase = (\<lambda>t. t),
      encodeURIComponent = Some\<rparr>"

lemmas parse_eval = norm_def trim_def spacesRegex_def isSpace_def isDigit_def isLetter_def
  levelTest_def letterTest_def ratioRegex_def commaRegex_def parseInt10_def isDash_def
  truthy_def first_src_def Let_def number_value_small numeral_eq_enat zero_enat_def
  one_enat_def

section \<open>Properties of the job-entry parser\<close>

lemma parse_div_raw:
  "norm (Some (div_text d)) = raw \<Longrightarrow>
   parse_div st d =
     (if level st = 0 \<and> levelTest raw then st\<lparr>level := parseInt10 raw\<rparr>
      else
        (case rx_exec ratioRegex raw of
           Some (pre, m, rest) \<Rightarrow>
             st\<lparr>exp := parseInt10 (rx_replace commaRegex [] (m ! 0 @ m ! 1)),
                maxv := parseInt10 (rx_replace commaRegex [] (m ! 5 @ m ! 6))\<rparr>
         | None \<Rightarrow>
             if name st = [] \<and> raw \<noteq> [] \<and> \<not> isDash raw \<and> letterTest raw
             then st\<lparr>name := raw,
                     tooltip :=
                       (if truthy (data_tooltip d) then the (data_tooltip d)
                        else if truthy (title d) then the (title d)
                        else if truthy (aria_label d) then the (aria_label d)
                        else raw)\<rparr>
             else st))"
  by (simp add: parse_div_def Let_def)

text \<open>
  C1. A fragment whose sub-blocks have the normalized texts \<open>0\<close>, \<open>-\<close>, \<open>Gladiator\<close>,
  \<open>0 / 0\<close>, in this order, is parsed to level 0, name \<open>Gladiator\<close>, exp 0 and max 0:
  the level 0 does not keep the name from being found, and the dash is not taken as the
  name.
\<close>

theorem parseLi_level_zero_keeps_name:
  assumes "sub_block_texts li = [js ''0'', js ''-'', js ''Gladiator'', js ''0 / 0'']"
  shows "level (parseLi li) = 0 \<and> name (parseLi li) = js ''Gladiator''
         \<and> exp (parseLi li) = 0 \<and> maxv (parseLi li) = 0"
proof -
  from assms obtain d1 d2 d3 d4 where
    ds: "li_divs li = [d1, d2, d3, d4]" and
    r1: "norm (Some (div_text d1)) = js ''0''" and
    r2: "norm (Some (div_text d2)) = js ''-''" and
    r3: "norm (Some (div_text d3)) = js ''Gladiator''" and
    r4: "norm (Some (div_text d4)) = js ''0 / 0''"
    by (auto simp: sub_block_texts_def map_eq_Cons_conv)
  show ?thesis
    unfolding parseLi_def ds
    by (simp add: parse_div_raw [OF r1] parse_div_raw [OF r2] parse_div_raw [OF r3]
        parse_div_raw [OF r4] levelTest_def letterTest_def isDigit_def isLetter_def
        isSpace_def ratioRegex_def commaRegex_def parseInt10_def isDash_def
        number_value_small numeral_eq_enat zero_enat_def)
qed

theorem parseLi_level_zero_keeps_name_witness:
  "sub_block_texts (text_li [js '' 0'', js ''-'', js ''Gladiator '', js ''0  /  0'']) =
     [js ''0'', js ''-'', js ''Gladiator'', js ''0 / 0'']
   \<and> level (parseLi (text_li [js '' 0'', js ''-'', js ''Gladiator '', js ''0  /  0''])) = 0
   \<and> name (parseLi (text_li [js '' 0'', js ''-'', js ''Gladiator '', js ''0  /  0'']))
       = js ''Gladiator''
   \<and> exp (parseLi (text_li [js '' 0'', js ''-'', js ''Gladiator '', js ''0  /  0''])) = 0
   \<and> maxv (parseLi (text_li [js '' 0'', js ''-'', js ''Gladiator '', js ''0  /  0''])) = 0"
proof -
  have h: "sub_block_texts (text_li [js '' 0'', js ''-'', js ''Gladiator '', js ''0  /  0'']) =
     [js ''0'', js ''-'', js ''Gladiator'', js ''0 / 0'']"
    by (simp add: sub_block_texts_def text_li_def text_div_def norm_def trim_def
        spacesRegex_def isSpace_def)
  from parseLi_level_zero_keeps_name [OF h] h show ?thesis
    by (intro conjI) (rule h, simp_all only:)
qed

subsection \<open>The level\<close>

lemma parse_div_level:
  "level (parse_div st d) =
     (if level st = 0 \<and> levelTest (norm (Some (div_text d)))
      then parseInt10 (norm (Some (div_text d))) else level st)"
  by (auto simp: parse_div_def Let_def split: option.splits)

lemma foldl_parse_div_level:
  "level (foldl parse_div st ds) =
     (if level st \<noteq> 0 then level st
      else case find (\<lambda>t. levelTest t \<and> parseInt10 t \<noteq> 0)
                  (map (\<lambda>d. norm (Some (div_text d))) ds) of
             Some t \<Rightarrow> parseInt10 t
           | None \<Rightarrow> 0)"
proof (induction ds arbitrary: st)
  case Nil
  then show ?case by simp
next
  case (Cons d ds)
  show ?case
    by (simp add: Cons.IH [of "parse_div st d"] parse_div_level)
qed

text \<open>
  What the code does: the level is the value of the first sub-block of one to three
  digits whose value is not 0, and 0 when there is none.
\<close>

lemma parseLi_level:
  "level (parseLi li) =
     (case find (\<lambda>t. levelTest t \<and> parseInt10 t \<noteq> 0) (sub_block_texts li) of
        Some t \<Rightarrow> parseInt10 t
      | None \<Rightarrow> 0)"
  by (simp add: parseLi_def sub_block_texts_def foldl_parse_div_level)

text \<open>
  C2. The level is to be taken from the first sub-block of one to three digits, and a
  later one is never to change it. The guard of the level rule is \<^verbatim>\<open>!level\<close>, which also
  holds after a first match of value 0: in the fragment with the sub-blocks \<open>0\<close> and
  \<open>50\<close> the first sub-block passes the level test with the value 0, and the level
  returned is 50. After a first match of another value the later sub-block is ignored.
\<close>

theorem level_replaced_after_zero:
  "sub_block_texts (text_li [js ''0'', js ''50'']) = [js ''0'', js ''50'']
   \<and> levelTest (js ''0'') \<and> parseInt10 (js ''0'') = 0
   \<and> level (parseLi (text_li [js ''0'', js ''50''])) = 50
   \<and> level (parseLi (text_li [js ''7'', js ''50''])) = 7"
  by (simp add: sub_block_texts_def text_li_def text_div_def parseLi_def parse_div_def
      parse_eval)

subsection \<open>The experience pair\<close>

text \<open>The indices of the groups are within the pieces of a match.\<close>

lemma ratio_pieces_length:
  "rx_exec ratioRegex raw = Some (pre, m, rest) \<Longrightarrow> length m = 7"
  by (drule rx_exec_length) (simp add: ratioRegex_def)

lemma ratio_has_slash:
  assumes "rx_exec ratioRegex raw = Some (pre, m, rest)"
  shows "47 \<in> set raw"
proof -
  from rx_exec_match [OF assms] have "list_all2 fits ratioRegex m"
    by (rule rx_match_fits)
  then have "47 \<in> set (concat m)"
    by (auto simp: ratioRegex_def list_all2_Cons1)
  with rx_exec_append [OF assms] show ?thesis by auto
qed

lemma level_not_ratio: "levelTest raw \<Longrightarrow> rx_exec ratioRegex raw = None"
proof (rule ccontr)
  assume l: "levelTest raw" and "rx_exec ratioRegex raw \<noteq> None"
  then obtain pre m rest where "rx_exec ratioRegex raw = Some (pre, m, rest)" by auto
  from ratio_has_slash [OF this] l show False
    by (auto simp: levelTest_def list_all_iff isDigit_def)
qed

lemma parse_div_exp:
  "(exp (parse_div st d), maxv (parse_div st d)) =
     (case ratio_pair (norm (Some (div_text d))) of
        Some pr \<Rightarrow> pr
      | None \<Rightarrow> (exp st, maxv st))"
  by (auto simp: parse_div_def Let_def ratio_pair_def level_not_ratio split: option.splits)

lemma foldl_parse_div_exp:
  "(exp (foldl parse_div st ds), maxv (foldl parse_div st ds)) =
     (case rev (List.map_filter ratio_pair (map (\<lambda>d. norm (Some (div_text d))) ds)) of
        [] \<Rightarrow> (exp st, maxv st)
      | pr # _ \<Rightarrow> pr)"
proof (induction ds rule: rev_induct)
  case Nil
  then show ?case by simp
next
  case (snoc d ds)
  show ?case
    using snoc.IH parse_div_exp [of "foldl parse_div st ds" d]
    by (auto simp: List.map_filter_def split: option.splits list.splits)
qed

text \<open>
  What the code does: the pair is that of the last sub-block that holds the ratio
  pattern, and \<open>(0, 0)\<close> when none does.
\<close>

lemma parseLi_exp_pair:
  "(exp (parseLi li), maxv (parseLi li)) = last_ratio_pair (sub_block_texts li)"
  by (simp add: parseLi_def last_ratio_pair_def sub_block_texts_def foldl_parse_div_exp
      split: list.splits)

text \<open>
  C7. The pair is to be that of the first sub-block that holds the ratio pattern, the
  commas removed before the numbers are read. The text \<open>1,234 / 5,600\<close> gives exp 1234
  and max 5600. But the experience rule has no guard, where the level rule has \<^verbatim>\<open>!level\<close>
  and the name rule \<^verbatim>\<open>!name\<close>, and every sub-block that holds the pattern replaces the
  pair: of \<open>1 / 2\<close> and \<open>3 / 4\<close> the first gives \<open>(1, 2)\<close>, the parser returns
  \<open>(3, 4)\<close>. In one fragment with two sub-blocks of each kind the level and the name
  are those of the first, the pair is that of the last.
\<close>

theorem exp_replaced_by_later_ratio:
  "sub_block_texts (text_li [js ''1 / 2'', js ''3 / 4'']) = [js ''1 / 2'', js ''3 / 4'']
   \<and> first_ratio_pair (sub_block_texts (text_li [js ''1 / 2'', js ''3 / 4''])) = (1, 2)
   \<and> (exp (parseLi (text_li [js ''1 / 2'', js ''3 / 4''])),
       maxv (parseLi (text_li [js ''1 / 2'', js ''3 / 4'']))) = (3, 4)
   \<and> ratio_pair (js ''1,234 / 5,600'') = Some (1234, 5600)
   \<and> (exp (parseLi (text_li [js ''1,234 / 5,600''])),
       maxv (parseLi (text_li [js ''1,234 / 5,600'']))) = (1234, 5600)
   \<and> level (parseLi (text_li
        [js ''50'', js ''60'', js ''Bard'', js ''Monk'', js ''1 / 2'', js ''3 / 4''])) = 50
   \<and> name (parseLi (text_li
        [js ''50'', js ''60'', js ''Bard'', js ''Monk'', js ''1 / 2'', js ''3 / 4'']))
       = js ''Bard''
   \<and> (exp (parseLi (text_li
          [js ''50'', js ''60'', js ''Bard'', js ''Monk'', js ''1 / 2'', js ''3 / 4''])),
       maxv (parseLi (text_li
          [js ''50'', js ''60'', js ''Bard'', js ''Monk'', js ''1 / 2'', js ''3 / 4''])))
       = (3, 4)"
  by (simp add: sub_block_texts_def text_li_def text_div_def parseLi_def parse_div_def
      first_ratio_pair_def ratio_pair_def parse_eval)

subsection \<open>The name\<close>

lemma parse_div_name:
  "rx_exec ratioRegex (norm (Some (div_text d))) = None
     \<longrightarrow> \<not> letterTest (norm (Some (div_text d)))
   \<Longrightarrow> name (parse_div st d) = name st"
  by (auto simp: parse_div_def Let_def split: option.splits)

lemma foldl_parse_div_name:
  "\<forall>d\<in>set ds. rx_exec ratioRegex (norm (Some (div_text d))) = None
       \<longrightarrow> \<not> letterTest (norm (Some (div_text d)))
   \<Longrightarrow> name (foldl parse_div st ds) = name st"
  by (induction ds arbitrary: st) (simp_all add: parse_div_name)

lemma parseLi_no_name:
  assumes "\<forall>t\<in>set (sub_block_texts li). ratio_pair t = None \<longrightarrow> \<not> letterTest t"
  shows "name (parseLi li) = []"
proof -
  from assms have "\<forall>d\<in>set (li_divs li). rx_exec ratioRegex (norm (Some (div_text d))) = None
       \<longrightarrow> \<not> letterTest (norm (Some (div_text d)))"
    by (auto simp: sub_block_texts_def ratio_pair_def split: option.splits)
  from foldl_parse_div_name [OF this] show ?thesis
    by (simp add: parseLi_def)
qed

lemma add_li_nameless: "name (parseLi li) = [] \<Longrightarrow> add_li js_list li = js_list"
  by (simp add: add_li_def Let_def)

lemma foldl_add_li_nameless:
  "name (parseLi li) = [] \<Longrightarrow>
   foldl add_li js_list (before @ li # after) = foldl add_li js_list (before @ after)"
  by (simp add: add_li_nameless)

lemma numericText_no_letter: "numericText t \<Longrightarrow> \<not> letterTest t"
  by (auto simp: numericText_def letterTest_def list_all_iff list_ex_iff isLetter_def
      isDigit_def)

lemma dash_no_letter: "\<not> letterTest (js ''-'')"
  by (simp add: letterTest_def isLetter_def)

text \<open>
  C6. In a fragment whose sub-blocks are all numeric but for the placeholder \<open>-\<close>, the
  parser finds no name, and the handler does not add an entry for the fragment: the job
  list of the slot is the same as if the fragment were not in the list.
\<close>

theorem dash_only_fragment_dropped:
  assumes "\<forall>t\<in>set (sub_block_texts li). t = js ''-'' \<or> numericText t"
  shows "name (parseLi li) = []
         \<and> add_li js_list li = js_list
         \<and> foldl add_li js_list (before @ li # after) = foldl add_li js_list (before @ after)"
proof -
  from assms have "\<forall>t\<in>set (sub_block_texts li). ratio_pair t = None \<longrightarrow> \<not> letterTest t"
    using numericText_no_letter dash_no_letter by auto
  then have "name (parseLi li) = []"
    by (rule parseLi_no_name)
  then show ?thesis
    by (simp add: add_li_nameless)
qed

theorem dash_only_fragment_dropped_witness:
  "sub_block_texts (text_li [js ''0'', js ''-'', js ''0 / 0'']) = [js ''0'', js ''-'', js ''0 / 0'']
   \<and> numericText (js ''0'') \<and> numericText (js ''0 / 0'')
   \<and> name (parseLi (text_li [js ''0'', js ''-'', js ''0 / 0''])) = []
   \<and> foldl add_li []
        [text_li [js ''90'', js ''Paladin''], text_li [js ''0'', js ''-'', js ''0 / 0''],
         text_li [js ''Warrior'']]
      = foldl add_li [] [text_li [js ''90'', js ''Paladin''], text_li [js ''Warrior'']]"
proof -
  have t: "sub_block_texts (text_li [js ''0'', js ''-'', js ''0 / 0'']) =
             [js ''0'', js ''-'', js ''0 / 0'']"
    by (simp add: sub_block_texts_def text_li_def text_div_def norm_def trim_def
        spacesRegex_def isSpace_def)
  have n: "numericText (js ''0'')" "numericText (js ''0 / 0'')"
    by (simp_all add: numericText_def isDigit_def)
  have h: "\<forall>t\<in>set (sub_block_texts (text_li [js ''0'', js ''-'', js ''0 / 0''])).
             t = js ''-'' \<or> numericText t"
    unfolding t using n by simp
  from dash_only_fragment_dropped [OF h, of "[]" "[text_li [js ''90'', js ''Paladin'']]"
      "[text_li [js ''Warrior'']]"] t n
  show ?thesis by simp
qed

text \<open>
  C10. The name rule asks for a letter of \<open>A\<close> to \<open>Z\<close> or \<open>a\<close> to \<open>z\<close>. When no sub-block
  that the experience rule leaves to the name rule holds such a letter (a sub-block
  taken as the level holds none), as for a name written in another script, the name
  returned is empty and the handler does not add an entry for the fragment.
\<close>

theorem no_ascii_letter_no_entry:
  assumes "\<forall>t\<in>set (sub_block_texts li). ratio_pair t = None \<longrightarrow> \<not> letterTest t"
  shows "name (parseLi li) = []
         \<and> add_li js_list li = js_list
         \<and> foldl add_li js_list (before @ li # after) = foldl add_li js_list (before @ after)"
proof -
  from assms have "name (parseLi li) = []"
    by (rule parseLi_no_name)
  then show ?thesis
    by (simp add: add_li_nameless)
qed

theorem no_ascii_letter_no_entry_witness:
  "sub_block_texts (text_li [js ''50'', [21091, 34899, 22763], js ''exp 1 / 2''])
     = [js ''50'', [21091, 34899, 22763], js ''exp 1 / 2'']
   \<and> \<not> letterTest (js ''50'') \<and> \<not> letterTest [21091, 34899, 22763]
   \<and> ratio_pair (js ''exp 1 / 2'') = Some (1, 2)
   \<and> name (parseLi (text_li [js ''50'', [21091, 34899, 22763], js ''exp 1 / 2''])) = []
   \<and> add_li [] (text_li [js ''50'', [21091, 34899, 22763], js ''exp 1 / 2'']) = []"
proof -
  have t: "sub_block_texts (text_li [js ''50'', [21091, 34899, 22763], js ''exp 1 / 2''])
     = [js ''50'', [21091, 34899, 22763], js ''exp 1 / 2'']"
    by (simp add: sub_block_texts_def text_li_def text_div_def norm_def trim_def
        spacesRegex_def isSpace_def)
  have l: "\<not> letterTest (js ''50'')" "\<not> letterTest [21091, 34899, 22763]"
    by (simp_all add: letterTest_def isLetter_def)
  have r: "ratio_pair (js ''exp 1 / 2'') = Some (1, 2)"
    by (simp add: ratio_pair_def parse_eval)
  have h: "\<forall>t\<in>set (sub_block_texts (text_li [js ''50'', [21091, 34899, 22763], js ''exp 1 / 2''])).
             ratio_pair t = None \<longrightarrow> \<not> letterTest t"
    unfolding t using l r by simp
  from no_ascii_letter_no_entry [OF h, of "[]" "[]" "[]"] t l r
  show ?thesis by simp
qed

section \<open>Properties of the view-source reconstruction\<close>

text \<open>Item 28, the second group, is among the pieces of a match.\<close>

lemma cell_pieces_length:
  "rx_exec cellRegex html = Some (pre, ps, rest) \<Longrightarrow> length ps = 34"
  by (drule rx_exec_length) (simp add: cellRegex_def lit_ci_def)

lemma cells_loop_line_cells:
  "cells_loop decode html =
     map (\<lambda>inner. decode (rx_replace tagRegex [] inner)) (line_cells html)"
proof (induction html rule: line_cells.induct)
  case (1 html)
  show ?case
  proof (cases "rx_exec cellRegex html")
    case None
    then show ?thesis
      by (simp add: cells_loop.simps [of decode html] line_cells.simps [of html])
  next
    case (Some res)
    then obtain pre ps rest where r: "rx_exec cellRegex html = Some (pre, ps, rest)"
      by (cases res) auto
    from "1" [OF r] r show ?thesis
      by (simp add: cells_loop.simps [of decode html] line_cells.simps [of html])
  qed
qed

lemma line_cells_Nil_iff: "line_cells html = [] \<longleftrightarrow> rx_exec cellRegex html = None"
  by (simp add: line_cells.simps [of html] split: option.splits)

text \<open>
  C3. When the cell pattern matches nowhere in the input, the function returns the
  input as it is.
\<close>

theorem reconstruct_identity:
  assumes "line_cells html = []"
  shows "reconstructFromViewSource decode html = html"
  using assms by (simp add: reconstructFromViewSource_def cells_loop_line_cells)

theorem reconstruct_identity_witness:
  "line_cells (js ''<table><td class=\"x\">a</td></table>'') = []
   \<and> reconstructFromViewSource (\<lambda>t. t) (js ''<table><td class=\"x\">a</td></table>'')
       = js ''<table><td class=\"x\">a</td></table>''"
proof -
  have "rx_exec cellRegex (js ''<table><td class=\"x\">a</td></table>'') = None"
    by (simp add: cellRegex_def lit_ci_def canon_def isQuote_def)
  then have h: "line_cells (js ''<table><td class=\"x\">a</td></table>'') = []"
    by (simp only: line_cells_Nil_iff)
  from reconstruct_identity [OF h] h show ?thesis by (intro conjI) (rule h, simp only:)
qed

text \<open>
  C4. When the input holds \<open>N \<ge> 1\<close> line-content cells, the function returns \<open>N\<close>
  lines joined by newlines, one for each cell in scan order: the line of a cell is its
  inner content with the tags removed and then decoded. (A line is the text a cell
  yields.)
\<close>

theorem reconstruct_lines:
  assumes "line_cells html \<noteq> []"
  shows "reconstructFromViewSource decode html =
           join [10] (map (\<lambda>inner. decode (rx_replace tagRegex [] inner)) (line_cells html))
         \<and> length (cells_loop decode html) = length (line_cells html)"
  using assms by (simp add: reconstructFromViewSource_def cells_loop_line_cells)

definition example_dump :: jstring where
  "example_dump =
     js ''<tr><td class=\"line-number\"></td><TD class=\"line-content\"><span>&lt;p&gt;</span>x</td></tr><tr><td id=a class=\"c line-content\">b</td></tr>''"

theorem reconstruct_lines_witness:
  "line_cells example_dump = [js ''<span>&lt;p&gt;</span>x'', js ''b'']
   \<and> reconstructFromViewSource (\<lambda>t. t) example_dump = js ''&lt;p&gt;x'' @ [10] @ js ''b''"
proof -
  have c: "line_cells example_dump = [js ''<span>&lt;p&gt;</span>x'', js ''b'']"
    by (simp add: example_dump_def line_cells.simps cellRegex_def lit_ci_def canon_def
        isQuote_def)
  then have h: "line_cells example_dump \<noteq> []"
    by simp
  have "join [10] (map (\<lambda>inner. rx_replace tagRegex [] inner)
          [js ''<span>&lt;p&gt;</span>x'', js ''b'']) = js ''&lt;p&gt;x'' @ [10] @ js ''b''"
    by (simp add: tagRegex_def)
  with reconstruct_lines [OF h, of "\<lambda>t. t"] c show ?thesis
    by (simp only:)
qed

section \<open>Properties of the label mapping\<close>

lemma startsWith_iff: "startsWith s sub \<longleftrightarrow> (\<exists>post. s = sub @ post)"
  by (induction s sub rule: startsWith.induct) auto

lemma includes_str_holds: "includes_str t kw \<longleftrightarrow> holds t kw"
proof (induction t)
  case Nil
  then show ?case by (auto simp: holds_def)
next
  case (Cons c cs)
  have "holds (c # cs) kw \<longleftrightarrow> (\<exists>post. c # cs = kw @ post) \<or> holds cs kw"
  proof
    assume "holds (c # cs) kw"
    then obtain pre post where e: "c # cs = pre @ kw @ post"
      by (auto simp: holds_def)
    show "(\<exists>post. c # cs = kw @ post) \<or> holds cs kw"
    proof (cases pre)
      case Nil
      with e show ?thesis by auto
    next
      case (Cons p pre')
      with e have "cs = pre' @ kw @ post" by simp
      then show ?thesis by (auto simp: holds_def)
    qed
  next
    assume "(\<exists>post. c # cs = kw @ post) \<or> holds cs kw"
    then show "holds (c # cs) kw"
    proof
      assume "\<exists>post. c # cs = kw @ post"
      then obtain post where "c # cs = [] @ kw @ post" by auto
      then show ?thesis unfolding holds_def by blast
    next
      assume "holds cs kw"
      then obtain pre post where "cs = pre @ kw @ post" by (auto simp: holds_def)
      then have "c # cs = (c # pre) @ kw @ post" by simp
      then show ?thesis unfolding holds_def by blast
    qed
  qed
  with Cons.IH show ?case by (simp add: startsWith_iff)
qed

text \<open>
  C5. The mapping decides by the first test, in the order of the table, that the label
  passes, each test being whether the label holds a keyword (or, for the last two, is
  the word itself). So \<open>tank\<close> goes to the Tank slot, \<open>physical ranged dps\<close> to the
  Physical Ranged DPS slot, \<open>hand\<close> to the Hand slot, and \<open>unknown\<close> has no slot.
\<close>

theorem mapCategory_first_match:
  "mapCategory t = first_rule t
   \<and> mapCategory (js ''tank'') = Some (''DoW/DoM'', ''Tank'')
   \<and> mapCategory (js ''physical ranged dps'') = Some (''DoW/DoM'', ''Physical Ranged DPS'')
   \<and> mapCategory (js ''hand'') = Some (''DoH/DoL'', ''Hand (DoH)'')
   \<and> mapCategory (js ''unknown'') = None"
proof
  show "mapCategory t = first_rule t"
    by (simp add: mapCategory_def first_rule_def category_rules_def includes_str_holds)
  show "mapCategory (js ''tank'') = Some (''DoW/DoM'', ''Tank'')
    \<and> mapCategory (js ''physical ranged dps'') = Some (''DoW/DoM'', ''Physical Ranged DPS'')
    \<and> mapCategory (js ''hand'') = Some (''DoH/DoL'', ''Hand (DoH)'')
    \<and> mapCategory (js ''unknown'') = None"
    by (simp add: mapCategory_def)
qed

theorem mapCategory_first_match_witness:
  "mapCategory (js ''tank healer'') = Some (''DoW/DoM'', ''Tank'')
   \<and> first_rule (js ''tank healer'') = Some (''DoW/DoM'', ''Tank'')"
proof -
  have "mapCategory (js ''tank healer'') = Some (''DoW/DoM'', ''Tank'')"
    by (simp add: mapCategory_def)
  with mapCategory_first_match [of "js ''tank healer''"] show ?thesis
    by (simp only:)
qed

section \<open>Properties of the request handler\<close>

lemma trim_blank: "list_all isSpace s \<Longrightarrow> trim s = []"
  by (auto simp: trim_def list_all_iff dest: set_dropWhileD)

text \<open>
  C9. When the identifier of the path is missing, empty or made of whitespace only, the
  handler answers 400 with the message of the missing identifier, and it requests no
  URL.
\<close>

theorem handler_rejects_blank_id:
  assumes "case param of None \<Rightarrow> True | Some t \<Rightarrow> list_all isSpace t"
  shows "handler e param =
           (Some \<lparr>status = 400, cache_control = None,
                  body = Error_body Missing_character_ID None\<rparr>, [])"
  using assms by (cases param) (simp_all add: handler_def trim_blank)

theorem handler_rejects_blank_id_witness:
  "(case Some (js ''  '') of None \<Rightarrow> True | Some t \<Rightarrow> list_all isSpace t)
   \<and> handler stub_env (Some (js ''  '')) =
           (Some \<lparr>status = 400, cache_control = None,
                  body = Error_body Missing_character_ID None\<rparr>, [])
   \<and> snd (handler stub_env (Some (js ''12''))) =
        [js ''https://na.finalfantasyxiv.com/lodestone/character/12/class_job/'']"
proof -
  have h: "case Some (js ''  '') of None \<Rightarrow> True | Some t \<Rightarrow> list_all isSpace t"
    by (simp add: isSpace_def)
  have f: "snd (handler stub_env (Some (js ''12''))) =
        [js ''https://na.finalfantasyxiv.com/lodestone/character/12/class_job/'']"
    by (simp add: handler_def stub_env_def trim_def isSpace_def Let_def)
  from handler_rejects_blank_id [OF h, of stub_env] h f show ?thesis
    by (intro conjI) (rule h, simp_all only:)
qed

section \<open>Properties of the normalizer\<close>

lemma star_splits_last:
  "star_splits p s \<noteq> [] \<and> last (star_splits p s) = (takeWhile p s, dropWhile p s)"
  by (induction s) (auto simp: last_map)

lemma rev_star_splits:
  "\<exists>alts. rev (star_splits p s) = (takeWhile p s, dropWhile p s) # alts"
proof -
  from star_splits_last [of p s]
  have "star_splits p s = butlast (star_splits p s) @ [(takeWhile p s, dropWhile p s)]"
    by (metis append_butlast_last_id)
  then have "rev (star_splits p s) =
      (takeWhile p s, dropWhile p s) # rev (butlast (star_splits p s))"
    by (metis rev.simps(2) rev_rev_ident rev_append rev_singleton_conv append_Cons append_Nil)
  then show ?thesis by blast
qed

lemma spacesRegex_match:
  "rx_match spacesRegex (c # cs) =
     (if isSpace c then Some ([[c], takeWhile isSpace cs], dropWhile isSpace cs) else None)"
proof -
  obtain alts where "rev (star_splits isSpace cs) =
      (takeWhile isSpace cs, dropWhile isSpace cs) # alts"
    using rev_star_splits by blast
  then show ?thesis by (simp add: spacesRegex_def)
qed

abbreviation collapse :: "jstring \<Rightarrow> jstring" where
  "collapse s \<equiv> rx_replace spacesRegex [32] s"

lemma collapse_Nil: "collapse [] = []"
  by (simp add: spacesRegex_def)

lemma collapse_Cons:
  "collapse (c # cs) =
     (if isSpace c then 32 # collapse (dropWhile isSpace cs) else c # collapse cs)"
  by (simp add: spacesRegex_match less_Suc_eq_le length_dropWhile_le)

lemma collapse_word:
  "\<forall>x\<in>set u. \<not> isSpace x \<Longrightarrow> collapse (u @ r) = u @ collapse r"
  by (induction u) (simp_all add: collapse_Cons del: rx_replace.simps)

lemma ltrim_collapse_fixed:
  "r = [] \<or> \<not> isSpace (hd r) \<Longrightarrow> dropWhile isSpace (collapse r) = collapse r"
  by (cases r) (simp_all add: collapse_Nil collapse_Cons del: rx_replace.simps)

lemma dropWhile_no_lead: "dropWhile P xs = [] \<or> \<not> P (hd (dropWhile P xs))"
  by (induction xs) auto

lemma ltrim_collapse:
  "dropWhile isSpace (collapse s) = collapse (dropWhile isSpace s)"
proof (cases s)
  case Nil
  then show ?thesis by (simp add: collapse_Nil del: rx_replace.simps)
next
  case (Cons c cs)
  show ?thesis
  proof (cases "isSpace c")
    case True
    have "isSpace 32" by (simp add: isSpace_def)
    with True Cons ltrim_collapse_fixed [OF dropWhile_no_lead [of isSpace cs]]
    show ?thesis by (simp add: collapse_Cons del: rx_replace.simps)
  next
    case False
    with Cons show ?thesis by (simp add: collapse_Cons del: rx_replace.simps)
  qed
qed

definition rtrim :: "jstring \<Rightarrow> jstring" where
  "rtrim x = rev (dropWhile isSpace (rev x))"

lemma rtrim_Nil_iff: "rtrim x = [] \<longleftrightarrow> (\<forall>c\<in>set x. isSpace c)"
  by (simp add: rtrim_def dropWhile_eq_Nil_conv)

lemma rtrim_append:
  "rtrim (a @ b) = (if rtrim b = [] then rtrim a else a @ rtrim b)"
  by (auto simp: rtrim_Nil_iff) (auto simp: rtrim_def dropWhile_append)

lemma rtrim_space_Cons: "rtrim (32 # x) = (if rtrim x = [] then [] else 32 # rtrim x)"
  using rtrim_append [of "[32]" x] by (simp add: rtrim_def isSpace_def)

lemma rtrim_word: "w \<noteq> [] \<Longrightarrow> \<not> isSpace (last w) \<Longrightarrow> rtrim w = w"
  by (induction w rule: rev_induct) (simp_all add: rtrim_def)

lemma trim_rtrim: "trim x = rtrim (dropWhile isSpace x)"
  by (simp add: trim_def rtrim_def)

lemma ws_words_ltrim: "ws_words (dropWhile isSpace s) = ws_words s"
  by (induction s) auto

lemma join_words_Nil: "join sep (ws_words s) = [] \<Longrightarrow> ws_words s = []"
proof (cases s rule: ws_words.cases)
  case 1
  then show ?thesis by simp
next
  case (2 c cs)
  assume j: "join sep (ws_words s) = []"
  show ?thesis
  proof (cases "ws_words s")
    case Nil
    then show ?thesis .
  next
    case (Cons w ws)
    have "w \<noteq> []"
    proof -
      have "\<forall>w\<in>set (ws_words t). w \<noteq> []" for t
        by (induction t rule: ws_words.induct) auto
      with Cons show ?thesis by (metis list.set_intros(1))
    qed
    with j Cons show ?thesis by (cases ws) auto
  qed
qed

lemma rtrim_collapse_words:
  "rtrim (collapse (dropWhile isSpace s)) = join [32] (ws_words s)"
proof (induction s rule: ws_words.induct)
  case 1
  show ?case by (simp add: rtrim_def collapse_Nil del: rx_replace.simps)
next
  case (2 c cs)
  show ?case
  proof (cases "isSpace c")
    case True
    with "2.IH"(1) show ?thesis by simp
  next
    case False
    define w where "w = c # takeWhile (\<lambda>x. \<not> isSpace x) cs"
    define rest where "rest = dropWhile (\<lambda>x. \<not> isSpace x) cs"
    have s: "c # cs = w @ rest"
      by (simp add: w_def rest_def)
    have wn: "\<forall>x\<in>set w. \<not> isSpace x"
      using False by (auto simp: w_def dest: set_takeWhileD)
    have wl: "w \<noteq> []" "\<not> isSpace (last w)"
      using wn by (auto simp: w_def)
    have ih: "rtrim (collapse (dropWhile isSpace rest)) = join [32] (ws_words rest)"
      using "2.IH"(2) [OF False] by (simp add: rest_def)
    have words: "ws_words (c # cs) = w # ws_words rest"
      using False by (simp add: w_def rest_def)
    have col: "collapse (c # cs) = w @ collapse rest"
      unfolding s by (rule collapse_word [OF wn])
    have lead: "rest = [] \<or> isSpace (hd rest)"
      using dropWhile_no_lead [of "\<lambda>x. \<not> isSpace x" cs] by (simp add: rest_def)
    show ?thesis
    proof (cases rest)
      case Nil
      with col words wl False show ?thesis
        by (simp add: rtrim_word collapse_Nil del: rx_replace.simps)
    next
      case (Cons d ds)
      with lead have d: "isSpace d" by simp
      have cr: "collapse rest = [32] @ collapse (dropWhile isSpace rest)"
        using d Cons by (simp add: collapse_Cons del: rx_replace.simps)
      show ?thesis
      proof (cases "ws_words rest")
        case Nil
        with ih have "rtrim (collapse (dropWhile isSpace rest)) = []" by simp
        then have "rtrim (collapse (c # cs)) = w"
          unfolding col cr by (simp add: rtrim_append rtrim_space_Cons rtrim_word wl)
        with False Nil words show ?thesis by simp
      next
        case (Cons v vs)
        with ih join_words_Nil [of "[32]" rest]
        have ne: "rtrim (collapse (dropWhile isSpace rest)) \<noteq> []" by auto
        then have "rtrim (collapse (c # cs)) = w @ [32] @ rtrim (collapse (dropWhile isSpace rest))"
          unfolding col cr by (simp add: rtrim_append rtrim_space_Cons)
        with False Cons words ih show ?thesis by simp
      qed
    qed
  qed
qed

text \<open>
  C8. The result of \<open>norm\<close> is the words of the text, its maximal runs of characters
  that are not whitespace, joined by single spaces: every run of whitespace between two
  words becomes one space, and the whitespace before the first and after the last word
  is gone. An absent and an empty text give the empty text.
\<close>

theorem norm_words:
  "norm (Some s) = join (js '' '') (ws_words s)
   \<and> norm None = js ''''
   \<and> norm (Some (js '''')) = js ''''
   \<and> norm (Some (js ''  a   b'' @ [10] @ js '' c '')) = js ''a b c''"
proof (intro conjI)
  show "norm (Some s) = join (js '' '') (ws_words s)"
    using rtrim_collapse_words [of s]
    by (simp add: norm_def trim_rtrim ltrim_collapse del: rx_replace.simps)
  show "norm None = js ''''" "norm (Some (js '''')) = js ''''"
    by (simp_all add: norm_def trim_def spacesRegex_def)
  show "norm (Some (js ''  a   b'' @ [10] @ js '' c '')) = js ''a b c''"
    by (simp add: norm_def trim_def spacesRegex_def isSpace_def)
qed

theorem norm_words_witness:
  "ws_words ([9] @ js ''Dark  Knight'' @ [160, 10]) = [js ''Dark'', js ''Knight'']
   \<and> norm (Some ([9] @ js ''Dark  Knight'' @ [160, 10])) = js ''Dark Knight''"
proof -
  have w: "ws_words ([9] @ js ''Dark  Knight'' @ [160, 10]) = [js ''Dark'', js ''Knight'']"
    by (simp add: isSpace_def)
  with norm_words [of "[9] @ js ''Dark  Knight'' @ [160, 10]"] show ?thesis
    by simp
qed

end
